theory Spec2Isabelle
  imports Complex_Main "HOL-Library.Sublist"
begin

section \<open>The sample data generator of climate\_change\_agriculture\_sa.py\<close>

text \<open>
  The dashboard script builds four tables in \<^verbatim>\<open>load_data\<close> and displays them.
  This theory embeds \<^verbatim>\<open>load_data\<close> and the three pieces of display logic of the
  Crop Health tab that carry behaviour: the season selection, the image fetch with its
  fallback, and the health indicator.

  Python floats are modelled as \<^typ>\<open>real\<close>, Python ints as \<^typ>\<open>int\<close> and Python
  strings as \<^typ>\<open>string\<close>.
\<close>

subsection \<open>Python and NumPy primitives\<close>

text \<open>
  \<^verbatim>\<open>np.random.normal(loc, scale)\<close> reads the hidden generator state and advances it.
  The state is made explicit: it is the sequence of standard normal samples the generator
  is going to deliver, and a call consumes the first one. NumPy computes the sample as
  \<^verbatim>\<open>loc + scale * z\<close> from the standard normal sample \<^verbatim>\<open>z\<close>.
\<close>

type_synonym rng = "nat \<Rightarrow> real"

definition normal :: "real \<Rightarrow> real \<Rightarrow> rng \<Rightarrow> real \<times> rng" where
  "normal loc scale g = (loc + scale * g 0, \<lambda>n. g (Suc n))"

text \<open>
  The reals stand for Python's floats, which are binary64 numbers. Where a claim asks
  for an exact float value, the computation is repeated with the rounding of binary64:
  a positive number whose multiple by \<open>2 ^ k\<close> lies between \<open>2 ^ 52\<close> and \<open>2 ^ 53\<close>
  is rounded to the nearest multiple of \<open>1 / 2 ^ k\<close>, a tie going to the even one.
\<close>

definition round_half_even :: "rat \<Rightarrow> int" where
  "round_half_even q =
     (let f = \<lfloor>q\<rfloor>; d = q - of_int f
      in if d < 1 / 2 then f else if 1 / 2 < d then f + 1 else if even f then f else f + 1)"

definition binade :: "nat \<Rightarrow> rat \<Rightarrow> bool" where
  "binade k q \<longleftrightarrow> 2 ^ 52 \<le> q * 2 ^ k \<and> q * 2 ^ k < 2 ^ 53"

definition fl :: "nat \<Rightarrow> rat \<Rightarrow> rat" where
  "fl k q = of_int (round_half_even (q * 2 ^ k)) / 2 ^ k"

text \<open>\<^verbatim>\<open>list(range(a, b))\<close>: the integers from \<^verbatim>\<open>a\<close> up to \<^verbatim>\<open>b - 1\<close>.\<close>

definition py_range :: "int \<Rightarrow> int \<Rightarrow> int list" where
  "py_range a b = [a..b - 1]"

text \<open>
  The builtin \<^verbatim>\<open>max(a, b)\<close> of two arguments keeps the first one unless the second is
  strictly greater.
\<close>

definition py_max :: "real \<Rightarrow> real \<Rightarrow> real" where
  "py_max a b = (if b > a then b else a)"

text \<open>\<^verbatim>\<open>sub in s\<close> on strings: \<^verbatim>\<open>sub\<close> occurs in \<^verbatim>\<open>s\<close> as a contiguous run.\<close>

fun str_in :: "string \<Rightarrow> string \<Rightarrow> bool" where
  "str_in sub [] = (sub = [])"
| "str_in sub (c # cs) = (prefix sub (c # cs) \<or> str_in sub cs)"

text \<open>
  A list comprehension \<^verbatim>\<open>[trend(year) + np.random.normal(0, sd) for year in ys]\<close>:
  one draw per element, in list order.
\<close>

fun noisy_series :: "(int \<Rightarrow> real) \<Rightarrow> real \<Rightarrow> int list \<Rightarrow> rng \<Rightarrow> real list \<times> rng" where
  "noisy_series trend sd [] g = ([], g)"
| "noisy_series trend sd (year # ys) g =
     (let (n, g1) = normal 0 sd g;
          (vs, g2) = noisy_series trend sd ys g1
      in ((trend year + n) # vs, g2))"

subsection \<open>The tables\<close>

record region_info =
  bbox :: "real list"

record climate_row =
  cl_Year :: int
  cl_Temperature_Change :: real
  cl_Rainfall_Change :: real

record crop_health_row =
  ch_Region :: string
  ch_Year :: int
  ch_Crop_Health_Index :: real
  ch_Crop_Type :: string

record projection_row =
  pr_Year :: int
  pr_Projected_Temp_Change :: real
  pr_Projected_Rainfall_Change :: real
  pr_Projected_Crop_Health :: real

record tables =
  t_regions :: "(string \<times> region_info) list"
  t_climate_df :: "climate_row list"
  t_crop_health_df :: "crop_health_row list"
  t_projections_df :: "projection_row list"

text \<open>
  The dict \<^verbatim>\<open>regions\<close>, as an association list in insertion order (the order in which
  Python iterates over its keys).
\<close>

definition regions :: "(string \<times> region_info) list" where
  "regions =
    [(''Western Cape Wheat'', \<lparr>bbox = [18.4, -34.2, 20.5, -33.0]\<rparr>),
     (''Free State Maize'', \<lparr>bbox = [26.5, -29.0, 28.5, -27.0]\<rparr>),
     (''KZN Sugarcane'', \<lparr>bbox = [30.5, -29.5, 31.5, -28.5]\<rparr>)]"

definition keys :: "('k \<times> 'v) list \<Rightarrow> 'k list" where
  "keys d = map fst d"

definition years :: "int list" where
  "years = py_range 2010 2024"

definition future_years :: "int list" where
  "future_years = py_range 2024 2050"

text \<open>The conditional expression of line 132.\<close>

definition crop_type :: "string \<Rightarrow> string" where
  "crop_type region =
     (if str_in ''Wheat'' region then ''Wheat''
      else if str_in ''Maize'' region then ''Maize''
      else ''Sugarcane'')"

text \<open>
  The body of the inner loop (lines 127-133): the row built for one region and one year
  from the sample \<^verbatim>\<open>n\<close> that \<^verbatim>\<open>np.random.normal(0, 5)\<close> returned.
\<close>

definition health_row :: "string \<Rightarrow> int \<Rightarrow> real \<Rightarrow> crop_health_row" where
  "health_row region year n =
     (let health = 80 - 0.8 * of_int (year - 2010) + n
      in \<lparr>ch_Region = region, ch_Year = year,
          ch_Crop_Health_Index = py_max 60 health,
          ch_Crop_Type = crop_type region\<rparr>)"

text \<open>
  The inner loop \<^verbatim>\<open>for year in years\<close> of line 126: it appends one row per year to the
  list \<^verbatim>\<open>crop_health\<close> and draws one sample per row.
\<close>

fun crop_year_loop ::
  "string \<Rightarrow> int list \<Rightarrow> crop_health_row list \<times> rng \<Rightarrow> crop_health_row list \<times> rng" where
  "crop_year_loop region [] (crop_health, g) = (crop_health, g)"
| "crop_year_loop region (year # ys) (crop_health, g) =
     (let (n, g1) = normal 0 5 g
      in crop_year_loop region ys (crop_health @ [health_row region year n], g1))"

text \<open>The outer loop \<^verbatim>\<open>for region in regions\<close> of line 125.\<close>

fun crop_region_loop ::
  "string list \<Rightarrow> int list \<Rightarrow> crop_health_row list \<times> rng \<Rightarrow> crop_health_row list \<times> rng" where
  "crop_region_loop [] yrs st = st"
| "crop_region_loop (region # rs) yrs st = crop_region_loop rs yrs (crop_year_loop region yrs st)"

text \<open>
  \<^verbatim>\<open>pd.DataFrame\<close> of a dict of columns: row \<^verbatim>\<open>i\<close> holds the \<^verbatim>\<open>i\<close>-th entry of
  every column.
\<close>

definition climate_frame :: "int list \<Rightarrow> real list \<Rightarrow> real list \<Rightarrow> climate_row list" where
  "climate_frame ys ts rs =
     map (\<lambda>(y, t, r). \<lparr>cl_Year = y, cl_Temperature_Change = t, cl_Rainfall_Change = r\<rparr>)
       (zip ys (zip ts rs))"

definition projection_frame ::
  "int list \<Rightarrow> real list \<Rightarrow> real list \<Rightarrow> real list \<Rightarrow> projection_row list" where
  "projection_frame ys ts rs hs =
     map (\<lambda>(y, t, r, h). \<lparr>pr_Year = y, pr_Projected_Temp_Change = t,
                           pr_Projected_Rainfall_Change = r, pr_Projected_Crop_Health = h\<rparr>)
       (zip ys (zip ts (zip rs hs)))"

text \<open>
  \<^verbatim>\<open>load_data\<close> itself (lines 105-149), without its decorator. The draws happen in
  program order: temperature, rainfall, crop health (by region, then by year), and the
  three projected series.
\<close>

definition load_data :: "rng \<Rightarrow> tables \<times> rng" where
  "load_data g0 =
     (let (temp_change, g1) = noisy_series (\<lambda>year. 0.1 * of_int (year - 2010)) 0.2 years g0;
          (rainfall_change, g2) = noisy_series (\<lambda>year. -2 * of_int (year - 2010)) 3 years g1;
          climate_df = climate_frame years temp_change rainfall_change;
          (crop_health, g3) = crop_region_loop (keys regions) years ([], g2);
          (future_temp, g4) =
             noisy_series (\<lambda>year. 0.15 * of_int (year - 2010)) 0.3 future_years g3;
          (future_rain, g5) =
             noisy_series (\<lambda>year. -3 * of_int (year - 2010)) 5 future_years g4;
          (future_health, g6) =
             noisy_series (\<lambda>year. 80 - 1.0 * of_int (year - 2010)) 6 future_years g5;
          projections_df =
             projection_frame future_years future_temp future_rain
               (map (\<lambda>h. py_max 40 h) future_health)
      in (\<lparr>t_regions = regions, t_climate_df = climate_df,
           t_crop_health_df = crop_health, t_projections_df = projections_df\<rparr>, g6))"

subsection \<open>The cached generator\<close>

text \<open>
  \<^verbatim>\<open>load_data\<close> is decorated with \<^verbatim>\<open>@st.cache_data\<close>, without \<^verbatim>\<open>ttl\<close> and
  without \<^verbatim>\<open>max_entries\<close>, and the script never clears the cache. The decorator keeps
  one entry per argument tuple; \<^verbatim>\<open>load_data\<close> takes no argument, so the cache is a
  single cell of the process, empty until the first call. A hit returns the stored
  tables and does not run the body, so it draws nothing.
\<close>

record process =
  cache :: "tables option"
  np_random :: rng

definition cached_load_data :: "process \<Rightarrow> tables \<times> process" where
  "cached_load_data p =
     (case cache p of
        Some t \<Rightarrow> (t, p)
      | None \<Rightarrow>
          (let (t, g) = load_data (np_random p)
           in (t, \<lparr>cache = Some t, np_random = g\<rparr>)))"

text \<open>
  Streamlit reruns the script on every interaction, so the call of line 151 happens many
  times in one process. Between two calls the rest of the script runs; it draws from the
  same generator (line 451) and never touches the cache. \<^verbatim>\<open>invocations\<close> collects the
  results of successive calls, each followed by one such stretch of other code.
\<close>

fun invocations :: "(rng \<Rightarrow> rng) list \<Rightarrow> process \<Rightarrow> tables list \<times> process" where
  "invocations [] p = ([], p)"
| "invocations (other # os) p =
     (let (t, p1) = cached_load_data p;
          (ts, p2) = invocations os (p1\<lparr>np_random := other (np_random p1)\<rparr>)
      in (t # ts, p2))"

section \<open>The Crop Health tab\<close>

subsection \<open>Season selection (lines 312-321)\<close>

text \<open>
  \<^verbatim>\<open>st.session_state\<close> is a dictionary that survives the reruns of one session; only its
  string entries matter here. The three arguments are the values \<^verbatim>\<open>st.button\<close> returned
  in this run.
\<close>

type_synonym session_state = "string \<rightharpoonup> string"

definition select_season :: "bool \<Rightarrow> bool \<Rightarrow> bool \<Rightarrow> session_state \<Rightarrow> session_state" where
  "select_season planting_btn growth_btn harvest_btn ss =
     (let ss1 = (if planting_btn then ss(''crop_season'' \<mapsto> ''Planting'') else ss);
          ss2 = (if growth_btn then ss1(''crop_season'' \<mapsto> ''Growth'') else ss1);
          ss3 = (if harvest_btn then ss2(''crop_season'' \<mapsto> ''Harvest'') else ss2)
      in if ss3 ''crop_season'' = None then ss3(''crop_season'' \<mapsto> ''Planting'') else ss3)"

text \<open>
  A button returns \<^verbatim>\<open>True\<close> only in the run that its click triggered, so a run sees at
  most one pressed button.
\<close>

datatype season_button = Planting_btn | Growth_btn | Harvest_btn

fun button_value :: "season_button \<Rightarrow> string" where
  "button_value Planting_btn = ''Planting''"
| "button_value Growth_btn = ''Growth''"
| "button_value Harvest_btn = ''Harvest''"

definition run_season :: "session_state \<Rightarrow> season_button option \<Rightarrow> session_state" where
  "run_season ss click =
     select_season (click = Some Planting_btn) (click = Some Growth_btn)
       (click = Some Harvest_btn) ss"

text \<open>A session: the runs of the script in order, starting from the empty session state.\<close>

definition session :: "season_button option list \<Rightarrow> session_state" where
  "session clicks = foldl run_season Map.empty clicks"

subsection \<open>Image fetch with fallback (lines 358-379)\<close>

text \<open>
  A Python exception is recorded by its class name and its \<^verbatim>\<open>str()\<close>. Every exception
  below is an instance of \<^verbatim>\<open>Exception\<close>, which is what the handler of line 375 catches.
\<close>

datatype exn = Exn (exn_class: string) (exn_str: string)

record response =
  status_code :: int
  raw :: string

text \<open>
  The calls the block makes outside the script. \<^verbatim>\<open>requests.get\<close> and
  \<^verbatim>\<open>Image.open\<close> either raise or return. The three display calls,
  \<^verbatim>\<open>st.image(img, caption=..., width=500)\<close> of line 370, \<^verbatim>\<open>st.warning\<close> of line 376 and
  \<^verbatim>\<open>st.image(url, use_container_width=True)\<close> of line 378, either raise
  (\<^term>\<open>Some e\<close>) or complete (\<^const>\<open>None\<close>); a call that raises has shown
  nothing. \<^verbatim>\<open>Image.open\<close> reads the header of the payload only, the pixels are decoded
  when \<^verbatim>\<open>st.image\<close> loads the image, so a payload that cannot be decoded makes one of
  the two raise. \<^verbatim>\<open>py_repr\<close> is the builtin \<^verbatim>\<open>repr\<close> on strings, which gives a
  \<^verbatim>\<open>KeyError\<close> its text. The type \<^typ>\<open>'img\<close> stands for an opened image.
\<close>

record 'img fetch_env =
  py_repr :: "string \<Rightarrow> string"
  requests_get :: "string \<Rightarrow> exn + response"
  Image_open :: "string \<Rightarrow> exn + 'img"
  st_image :: "'img \<Rightarrow> string \<Rightarrow> int \<Rightarrow> exn option"
  st_warning :: "string \<Rightarrow> exn option"
  st_image_url :: "string \<Rightarrow> exn option"

text \<open>What the block puts on the page.\<close>

datatype 'img shown =
    Fetched_image 'img string int
  | Warning string
  | Placeholder_image string

definition image_urls :: "(string \<times> string) list" where
  "image_urls =
    [(''Western Cape Wheat'',
        ''https://upload.wikimedia.org/wikipedia/commons/5/56/Wheat_panorama.jpg''),
     (''Free State Maize'',
        ''https://upload.wikimedia.org/wikipedia/commons/6/62/Maize_production_near_the_R34_Welkom.jpg''),
     (''KZN Sugarcane'',
        ''https://upload.wikimedia.org/wikipedia/commons/3/3a/RSA_Sugar_Fields.jpg'')]"

definition placeholder_url :: string where
  "placeholder_url =
     ''https://images.unsplash.com/photo-1500382017468-9049fed747ef?ixlib=rb-4.0.3&ixid=M3wxMjA3fDB8MHxwaG90by1wYWdlfHx8fGVufDB8fHx8fA%3D%3D&auto=format&fit=crop&w=600&q=80''"

text \<open>\<^verbatim>\<open>str\<close> of a Python int, as the f-strings of lines 371 and 374 format it.\<close>

fun str_nat :: "nat \<Rightarrow> string" where
  "str_nat n =
     (if n < 10 then [''0123456789'' ! n]
      else str_nat (n div 10) @ [''0123456789'' ! (n mod 10)])"

definition str_int :: "int \<Rightarrow> string" where
  "str_int i = (if i < 0 then CHR ''-'' # str_nat (nat (- i)) else str_nat (nat i))"

text \<open>The f-string of line 371.\<close>

definition caption :: "string \<Rightarrow> string \<Rightarrow> int \<Rightarrow> string" where
  "caption region crop_season year =
     ''Sentinel-2 Imagery: '' @ region @ '' ('' @ crop_season @ '' '' @ str_int year @ '')''"

text \<open>
  A run of a piece of the block gives what it has shown and the exception it raised, if
  any.

  The body of the \<^verbatim>\<open>try\<close> (lines 367-374): the first exception raised ends it.
\<close>

definition try_body ::
  "'img fetch_env \<Rightarrow> string \<Rightarrow> string \<Rightarrow> int \<Rightarrow> 'img shown list \<times> exn option" where
  "try_body env region crop_season year =
     (case map_of image_urls region of
        None \<Rightarrow> ([], Some (Exn ''KeyError'' (py_repr env region)))
      | Some url \<Rightarrow>
          (case requests_get env url of
             Inl e \<Rightarrow> ([], Some e)
           | Inr response \<Rightarrow>
               if status_code response = 200 then
                 (case Image_open env (raw response) of
                    Inl e \<Rightarrow> ([], Some e)
                  | Inr img \<Rightarrow>
                      (case st_image env img (caption region crop_season year) 500 of
                         Some e \<Rightarrow> ([], Some e)
                       | None \<Rightarrow>
                           ([Fetched_image img (caption region crop_season year) 500], None)))
               else ([], Some (Exn ''Exception''
                                 (''HTTP Error: '' @ str_int (status_code response))))))"

text \<open>
  The handler of lines 375-379. An exception raised by one of its two calls is not
  caught by anything.
\<close>

definition except_handler :: "'img fetch_env \<Rightarrow> exn \<Rightarrow> 'img shown list \<times> exn option" where
  "except_handler env e =
     (let msg = ''Unable to load satellite image. Error: '' @ exn_str e
      in case st_warning env msg of
           Some e' \<Rightarrow> ([], Some e')
         | None \<Rightarrow>
             (case st_image_url env placeholder_url of
                Some e' \<Rightarrow> ([Warning msg], Some e')
              | None \<Rightarrow> ([Warning msg, Placeholder_image placeholder_url], None)))"

text \<open>
  The whole statement: what the block has shown, and the exception that leaves it, if
  any.
\<close>

definition show_satellite_image ::
  "'img fetch_env \<Rightarrow> string \<Rightarrow> string \<Rightarrow> int \<Rightarrow> 'img shown list \<times> exn option" where
  "show_satellite_image env region crop_season year =
     (case try_body env region crop_season year of
        (out, None) \<Rightarrow> (out, None)
      | (out, Some e) \<Rightarrow>
          (let (out', e') = except_handler env e in (out @ out', e')))"

subsection \<open>Health indicator (lines 382-385)\<close>

text \<open>
  The boolean-mask selection, and \<^verbatim>\<open>Series.mean()\<close>; the mean of an empty selection is
  NaN, here \<^const>\<open>None\<close>.
\<close>

definition select_rows :: "crop_health_row list \<Rightarrow> string \<Rightarrow> int \<Rightarrow> crop_health_row list" where
  "select_rows df region year = filter (\<lambda>row. ch_Region row = region \<and> ch_Year row = year) df"

definition mean :: "real list \<Rightarrow> real option" where
  "mean xs = (if xs = [] then None else Some (sum_list xs / of_nat (length xs)))"

definition health_value :: "crop_health_row list \<Rightarrow> string \<Rightarrow> int \<Rightarrow> real option" where
  "health_value df region year = mean (map ch_Crop_Health_Index (select_rows df region year))"

section \<open>Properties of the generator\<close>

subsection \<open>Primitives\<close>

lemma str_in_sublist: "str_in sub s = sublist sub s"
  by (induction s) (auto simp: sublist_Cons_right)

lemma str_in_iff: "str_in sub s \<longleftrightarrow> (\<exists>pre post. s = pre @ sub @ post)"
  by (simp add: str_in_sublist sublist_def)

lemma py_max_eq: "py_max a b = max a b"
  by (simp add: py_max_def max_def)

subsection \<open>The loops in closed form\<close>

text \<open>
  Each loop consumes one sample per iteration, so its result can be read off the sample
  sequence by position.
\<close>

lemma noisy_series_eq:
  "noisy_series trend sd ys g =
     (map (\<lambda>i. trend (ys ! i) + sd * g i) [0..<length ys], \<lambda>n. g (n + length ys))"
proof (induction ys arbitrary: g)
  case Nil
  show ?case by simp
next
  case (Cons y ys)
  have "map (\<lambda>i. trend ((y # ys) ! i) + sd * g i) [0..<length (y # ys)] =
        (trend y + sd * g 0) # map (\<lambda>i. trend (ys ! i) + sd * g (Suc i)) [0..<length ys]"
    by (simp add: upt_conv_Cons map_Suc_upt [symmetric] del: upt_Suc)
  then show ?case
    by (simp add: Cons.IH normal_def)
qed

lemma crop_year_loop_eq:
  "crop_year_loop region ys (acc, g) =
     (acc @ map (\<lambda>j. health_row region (ys ! j) (5 * g j)) [0..<length ys],
      \<lambda>n. g (n + length ys))"
proof (induction ys arbitrary: acc g)
  case Nil
  show ?case by simp
next
  case (Cons y ys)
  have "map (\<lambda>j. health_row region ((y # ys) ! j) (5 * g j)) [0..<length (y # ys)] =
        health_row region y (5 * g 0) #
        map (\<lambda>j. health_row region (ys ! j) (5 * g (Suc j))) [0..<length ys]"
    by (simp add: upt_conv_Cons map_Suc_upt [symmetric] del: upt_Suc)
  then show ?case
    by (simp add: Cons.IH normal_def)
qed

lemma crop_region_loop_eq:
  "crop_region_loop rs ys (acc, g) =
     (acc @ concat (map (\<lambda>i. map (\<lambda>j. health_row (rs ! i) (ys ! j) (5 * g (i * length ys + j)))
                                [0..<length ys]) [0..<length rs]),
      \<lambda>n. g (n + length rs * length ys))"
proof (induction rs arbitrary: acc g)
  case Nil
  show ?case by simp
next
  case (Cons r rs)
  have "map (\<lambda>i. map (\<lambda>j. health_row ((r # rs) ! i) (ys ! j) (5 * g (i * length ys + j)))
                 [0..<length ys]) [0..<length (r # rs)] =
        map (\<lambda>j. health_row r (ys ! j) (5 * g j)) [0..<length ys] #
        map (\<lambda>i. map (\<lambda>j. health_row (rs ! i) (ys ! j) (5 * g (Suc i * length ys + j)))
                 [0..<length ys]) [0..<length rs]"
    by (simp add: upt_conv_Cons map_Suc_upt [symmetric] del: upt_Suc)
  then show ?case
    by (simp add: Cons.IH crop_year_loop_eq add.commute add.left_commute)
qed

subsection \<open>The tables of \<^verbatim>\<open>load_data\<close> in closed form\<close>

lemma length_years: "length years = 14"
  by (simp add: years_def py_range_def)

lemma length_future_years: "length future_years = 26"
  by (simp add: future_years_def py_range_def)

lemma nth_years: "j < 14 \<Longrightarrow> years ! j = 2010 + int j"
  by (simp add: years_def py_range_def del: upto_rec_numeral)

lemma nth_future_years: "j < 26 \<Longrightarrow> future_years ! j = 2024 + int j"
  by (simp add: future_years_def py_range_def del: upto_rec_numeral)

lemma length_keys_regions: "length (keys regions) = 3"
  by (simp add: keys_def regions_def)

lemma keys_regions: "keys regions = [''Western Cape Wheat'', ''Free State Maize'', ''KZN Sugarcane'']"
  by (simp add: keys_def regions_def)

lemma load_data_crop_health:
  "t_crop_health_df (fst (load_data g)) =
     concat (map (\<lambda>i. map (\<lambda>j. health_row (keys regions ! i) (years ! j) (5 * g (28 + i * 14 + j)))
                          [0..<14]) [0..<3])"
  by (simp add: load_data_def noisy_series_eq crop_region_loop_eq length_years length_keys_regions
      add.commute add.left_commute del: upt_Suc)

lemma load_data_rng: "snd (load_data g) = (\<lambda>n. g (n + 148))"
  by (simp add: load_data_def noisy_series_eq crop_region_loop_eq length_years
      length_future_years length_keys_regions add.commute add.left_commute del: upt_Suc)

lemma load_data_projections:
  "t_projections_df (fst (load_data g)) =
     projection_frame future_years
       (map (\<lambda>j. 0.15 * of_int (future_years ! j - 2010) + 0.3 * g (70 + j)) [0..<26])
       (map (\<lambda>j. -3 * of_int (future_years ! j - 2010) + 5 * g (96 + j)) [0..<26])
       (map (\<lambda>j. py_max 40 (80 - 1.0 * of_int (future_years ! j - 2010) + 6 * g (122 + j))) [0..<26])"
  by (simp add: load_data_def noisy_series_eq crop_region_loop_eq length_years
      length_future_years length_keys_regions add.commute add.left_commute comp_def del: upt_Suc)

lemma load_data_climate:
  "t_climate_df (fst (load_data g)) =
     climate_frame years
       (map (\<lambda>j. 0.1 * of_int (years ! j - 2010) + 0.2 * g j) [0..<14])
       (map (\<lambda>j. -2 * of_int (years ! j - 2010) + 3 * g (14 + j)) [0..<14])"
  by (simp add: load_data_def noisy_series_eq crop_region_loop_eq length_years
      length_future_years length_keys_regions add.commute add.left_commute del: upt_Suc)

lemma load_data_regions: "t_regions (fst (load_data g)) = regions"
  by (simp add: load_data_def split_def Let_def)

lemma health_row_sel [simp]:
  "ch_Region (health_row r y n) = r"
  "ch_Year (health_row r y n) = y"
  "ch_Crop_Health_Index (health_row r y n) = py_max 60 (80 - 0.8 * of_int (y - 2010) + n)"
  "ch_Crop_Type (health_row r y n) = crop_type r"
  by (simp_all add: health_row_def)

lemma py_max_ge: "a \<le> py_max a b"
  by (simp add: py_max_def)

lemma crop_type_regions:
  "crop_type ''Western Cape Wheat'' = ''Wheat''"
  "crop_type ''Free State Maize'' = ''Maize''"
  "crop_type ''KZN Sugarcane'' = ''Sugarcane''"
  by (simp_all add: crop_type_def)

lemma crop_health_rowE:
  assumes "row \<in> set (t_crop_health_df (fst (load_data g)))"
  obtains i j where "i < 3" "j < 14"
    "row = health_row (keys regions ! i) (2010 + int j) (5 * g (28 + i * 14 + j))"
  using assms by (auto simp: load_data_crop_health nth_years)

lemma projection_rowE:
  assumes "row \<in> set (t_projections_df (fst (load_data g)))"
  obtains j where "j < 26"
    "pr_Year row = 2024 + int j"
    "pr_Projected_Temp_Change row = 0.15 * of_int (2024 + int j - 2010) + 0.3 * g (70 + j)"
    "pr_Projected_Rainfall_Change row = -3 * of_int (2024 + int j - 2010) + 5 * g (96 + j)"
    "pr_Projected_Crop_Health row = py_max 40 (80 - 1.0 * of_int (2024 + int j - 2010) + 6 * g (122 + j))"
proof -
  from assms obtain j where j: "j < 26"
    and row: "row = projection_frame future_years
       (map (\<lambda>j. 0.15 * of_int (future_years ! j - 2010) + 0.3 * g (70 + j)) [0..<26])
       (map (\<lambda>j. -3 * of_int (future_years ! j - 2010) + 5 * g (96 + j)) [0..<26])
       (map (\<lambda>j. py_max 40 (80 - 1.0 * of_int (future_years ! j - 2010) + 6 * g (122 + j))) [0..<26]) ! j"
    by (auto simp: load_data_projections in_set_conv_nth projection_frame_def length_future_years)
  show thesis
    by (rule that [OF j]) (simp_all add: row projection_frame_def length_future_years nth_future_years j)
qed

lemma length_concat_grid:
  "length (concat (map (\<lambda>i. map (f i) [0..<m]) [0..<n])) = n * m"
  by (induction n) simp_all

lemma nth_concat_grid:
  "i < n \<Longrightarrow> j < m \<Longrightarrow> concat (map (\<lambda>i. map (f i) [0..<m]) [0..<n]) ! (i * m + j) = f i j"
proof (induction n)
  case 0
  then show ?case by simp
next
  case (Suc n)
  show ?case
  proof (cases "i < n")
    case True
    then have "Suc i * m \<le> n * m" by (intro mult_le_mono1) simp
    with \<open>j < m\<close> have "i * m + j < n * m" by simp
    with True Suc show ?thesis
      by (simp add: nth_append length_concat_grid)
  next
    case False
    with Suc.prems have "i = n" by simp
    with \<open>j < m\<close> show ?thesis
      by (simp add: nth_append length_concat_grid)
  qed
qed

lemma length_crop_health: "length (t_crop_health_df (fst (load_data g))) = 42"
  by (simp add: load_data_crop_health length_concat_grid del: upt_Suc)

lemma nth_crop_health:
  assumes "i < 3" "j < 14"
  shows "t_crop_health_df (fst (load_data g)) ! (i * 14 + j) =
         health_row (keys regions ! i) (2010 + int j) (5 * g (28 + i * 14 + j))"
  using assms nth_concat_grid [of i 3 j 14
      "\<lambda>i j. health_row (keys regions ! i) (years ! j) (5 * g (28 + i * 14 + j))"]
  by (simp add: load_data_crop_health nth_years del: upt_Suc)

lemma length_projections: "length (t_projections_df (fst (load_data g))) = 26"
  by (simp add: load_data_projections projection_frame_def length_future_years)

lemma nth_projections:
  assumes "j < 26"
  shows "t_projections_df (fst (load_data g)) ! j =
     \<lparr>pr_Year = 2024 + int j,
      pr_Projected_Temp_Change = 0.15 * of_int (2024 + int j - 2010) + 0.3 * g (70 + j),
      pr_Projected_Rainfall_Change = -3 * of_int (2024 + int j - 2010) + 5 * g (96 + j),
      pr_Projected_Crop_Health = py_max 40 (80 - 1.0 * of_int (2024 + int j - 2010) + 6 * g (122 + j))\<rparr>"
  using assms
  by (simp add: load_data_projections projection_frame_def length_future_years nth_future_years)

lemma length_climate: "length (t_climate_df (fst (load_data g))) = 14"
  by (simp add: load_data_climate climate_frame_def length_years)

lemma nth_climate:
  assumes "j < 14"
  shows "t_climate_df (fst (load_data g)) ! j =
     \<lparr>cl_Year = 2010 + int j,
      cl_Temperature_Change = 0.1 * of_int (2010 + int j - 2010) + 0.2 * g j,
      cl_Rainfall_Change = -2 * of_int (2010 + int j - 2010) + 3 * g (14 + j)\<rparr>"
  using assms
  by (simp add: load_data_climate climate_frame_def length_years nth_years)

subsection \<open>Clamping floors\<close>

text \<open>
  Claim C1. Whatever samples the generator delivers, every row of the crop-health table
  has an index of at least 60, a year from 2010 to 2023 and one of the three regions, and
  every row of the projection table has a projected crop health of at least 40 and a
  year from 2024 to 2049.
\<close>

theorem clamping_floors:
  "(\<forall>row \<in> set (t_crop_health_df (fst (load_data g))).
       60 \<le> ch_Crop_Health_Index row \<and> 2010 \<le> ch_Year row \<and> ch_Year row \<le> 2023
       \<and> ch_Region row \<in> set (keys regions))
   \<and> (\<forall>row \<in> set (t_projections_df (fst (load_data g))).
       40 \<le> pr_Projected_Crop_Health row \<and> 2024 \<le> pr_Year row \<and> pr_Year row \<le> 2049)"
proof (intro conjI ballI)
  fix row assume "row \<in> set (t_crop_health_df (fst (load_data g)))"
  then obtain i j where ij: "i < 3" "j < 14"
    and row: "row = health_row (keys regions ! i) (2010 + int j) (5 * g (28 + i * 14 + j))"
    by (rule crop_health_rowE)
  show "60 \<le> ch_Crop_Health_Index row" by (simp add: row py_max_ge)
  show "2010 \<le> ch_Year row" by (simp add: row)
  show "ch_Year row \<le> 2023" using ij by (simp add: row)
  show "ch_Region row \<in> set (keys regions)" using ij by (simp add: row length_keys_regions)
next
  fix row assume "row \<in> set (t_projections_df (fst (load_data g)))"
  then obtain j where j: "j < 26" "pr_Year row = 2024 + int j"
    "pr_Projected_Crop_Health row = py_max 40 (80 - 1.0 * of_int (2024 + int j - 2010) + 6 * g (122 + j))"
    by (rule projection_rowE)
  show "40 \<le> pr_Projected_Crop_Health row" by (simp add: j py_max_ge)
  show "2024 \<le> pr_Year row" by (simp add: j)
  show "pr_Year row \<le> 2049" using j by simp
qed

text \<open>
  With every standard sample at -100 the unclamped values lie far below the floors; the
  first crop-health row and the last projection row still respect them.
\<close>

theorem clamping_floors_witness:
  "t_crop_health_df (fst (load_data (\<lambda>n. - 100))) ! 0 \<in> set (t_crop_health_df (fst (load_data (\<lambda>n. - 100))))
   \<and> t_crop_health_df (fst (load_data (\<lambda>n. - 100))) ! 0 = health_row ''Western Cape Wheat'' 2010 (- 500)
   \<and> 60 \<le> ch_Crop_Health_Index (t_crop_health_df (fst (load_data (\<lambda>n. - 100))) ! 0)
   \<and> t_projections_df (fst (load_data (\<lambda>n. - 100))) ! 25 \<in> set (t_projections_df (fst (load_data (\<lambda>n. - 100))))
   \<and> pr_Year (t_projections_df (fst (load_data (\<lambda>n. - 100))) ! 25) = 2049
   \<and> 40 \<le> pr_Projected_Crop_Health (t_projections_df (fst (load_data (\<lambda>n. - 100))) ! 25)"
proof -
  let ?t = "fst (load_data (\<lambda>n. - 100))"
  have m1: "t_crop_health_df ?t ! 0 \<in> set (t_crop_health_df ?t)"
    by (rule nth_mem) (simp add: length_crop_health)
  have m2: "t_projections_df ?t ! 25 \<in> set (t_projections_df ?t)"
    by (rule nth_mem) (simp add: length_projections)
  have e1: "t_crop_health_df ?t ! 0 = health_row ''Western Cape Wheat'' 2010 (- 500)"
    using nth_crop_health [of 0 0 "\<lambda>n. - 100"] by (simp add: keys_regions)
  have e2: "pr_Year (t_projections_df ?t ! 25) = 2049"
    by (simp add: nth_projections)
  from clamping_floors [of "\<lambda>n. - 100"] m1 m2 e1 e2 show ?thesis
    by blast
qed

subsection \<open>Shape of the tables\<close>

lemma map_concat_grid:
  "map h (concat (map (\<lambda>i. map (f i) [0..<m]) [0..<n])) =
   concat (map (\<lambda>i. map (\<lambda>j. h (f i j)) [0..<m]) [0..<n])"
  by (simp add: map_concat comp_def)

lemma map_by_nth: "map f xs = map (\<lambda>i. f (xs ! i)) [0..<length xs]"
  by (rule nth_equalityI) simp_all

lemma product_grid:
  "List.product xs ys =
   concat (map (\<lambda>i. map (\<lambda>j. (xs ! i, ys ! j)) [0..<length ys]) [0..<length xs])"
proof -
  have "List.product xs ys = concat (map (\<lambda>x. map (Pair x) ys) xs)"
    by (induction xs) simp_all
  also have "\<dots> = concat (map (\<lambda>i. map (Pair (xs ! i)) ys) [0..<length xs])"
    by (subst map_by_nth) (rule refl)
  also have "\<dots> = concat (map (\<lambda>i. map (\<lambda>j. (xs ! i, ys ! j)) [0..<length ys]) [0..<length xs])"
    by (subst map_by_nth [of "Pair _" ys]) (rule refl)
  finally show ?thesis .
qed

lemma years_upto: "years = [2010..2023]"
  by (simp add: years_def py_range_def del: upto_rec_numeral)

lemma future_years_upto: "future_years = [2024..2049]"
  by (simp add: future_years_def py_range_def del: upto_rec_numeral)

lemma crop_health_keys:
  "map (\<lambda>row. (ch_Region row, ch_Year row)) (t_crop_health_df (fst (load_data g))) =
   List.product (keys regions) years"
  by (simp add: load_data_crop_health map_concat_grid product_grid length_years
      length_keys_regions del: upt_Suc)

lemma climate_years: "map cl_Year (t_climate_df (fst (load_data g))) = years"
  by (rule nth_equalityI) (simp_all add: length_climate length_years nth_climate nth_years)

lemma projection_years: "map pr_Year (t_projections_df (fst (load_data g))) = future_years"
  by (rule nth_equalityI)
    (simp_all add: length_projections length_future_years nth_projections nth_future_years)

text \<open>
  Claim C2. The year ranges are the contiguous sequences 2010..2023 (14 years) and
  2024..2049 (26 years). The climate table has one row per historical year, in order; the
  crop-health table has one row per pair of a region and a historical year, region by
  region, 42 in all; the projection table has one row per future year, in order.
\<close>

theorem table_shapes:
  "years = [2010..2023] \<and> length years = 14
   \<and> future_years = [2024..2049] \<and> length future_years = 26
   \<and> map cl_Year (t_climate_df (fst (load_data g))) = [2010..2023]
   \<and> length (t_climate_df (fst (load_data g))) = 14
   \<and> map (\<lambda>row. (ch_Region row, ch_Year row)) (t_crop_health_df (fst (load_data g))) =
       List.product [''Western Cape Wheat'', ''Free State Maize'', ''KZN Sugarcane''] [2010..2023]
   \<and> length (t_crop_health_df (fst (load_data g))) = 42
   \<and> map pr_Year (t_projections_df (fst (load_data g))) = [2024..2049]
   \<and> length (t_projections_df (fst (load_data g))) = 26"
  using crop_health_keys [of g] climate_years [of g] projection_years [of g]
  by (simp only: years_upto [symmetric] future_years_upto [symmetric] keys_regions [symmetric]
      length_years length_future_years length_climate length_crop_health length_projections
      simp_thms)

subsection \<open>Regions and crop types\<close>

lemma crop_type_range: "crop_type r \<in> {''Wheat'', ''Maize'', ''Sugarcane''}"
  by (simp add: crop_type_def)

text \<open>
  Claim C3. The region table has exactly the three keys Western Cape Wheat, Free State
  Maize and KZN Sugarcane, which get the crop types Wheat, Maize and Sugarcane. Every
  crop-health row carries one of these regions, and its crop type is the function
  \<^const>\<open>crop_type\<close> of its region name (so equal regions have equal crop types), one
  of Wheat, Maize, Sugarcane.
\<close>

theorem regions_and_crop_types:
  "keys (t_regions (fst (load_data g))) =
     [''Western Cape Wheat'', ''Free State Maize'', ''KZN Sugarcane'']
   \<and> distinct (keys (t_regions (fst (load_data g))))
   \<and> crop_type ''Western Cape Wheat'' = ''Wheat''
   \<and> crop_type ''Free State Maize'' = ''Maize''
   \<and> crop_type ''KZN Sugarcane'' = ''Sugarcane''
   \<and> (\<forall>row \<in> set (t_crop_health_df (fst (load_data g))).
         ch_Region row \<in> {''Western Cape Wheat'', ''Free State Maize'', ''KZN Sugarcane''}
         \<and> ch_Crop_Type row = crop_type (ch_Region row)
         \<and> ch_Crop_Type row \<in> {''Wheat'', ''Maize'', ''Sugarcane''})"
proof (intro conjI ballI)
  show "keys (t_regions (fst (load_data g))) =
     [''Western Cape Wheat'', ''Free State Maize'', ''KZN Sugarcane'']"
    by (simp add: load_data_regions keys_regions)
  then show "distinct (keys (t_regions (fst (load_data g))))"
    by simp
next
  fix row assume "row \<in> set (t_crop_health_df (fst (load_data g)))"
  then obtain i j where ij: "i < 3" "j < 14"
    and row: "row = health_row (keys regions ! i) (2010 + int j) (5 * g (28 + i * 14 + j))"
    by (rule crop_health_rowE)
  from ij have "keys regions ! i \<in> set (keys regions)"
    by (simp add: length_keys_regions)
  then show "ch_Region row \<in> {''Western Cape Wheat'', ''Free State Maize'', ''KZN Sugarcane''}"
    by (simp add: row keys_regions)
  show "ch_Crop_Type row = crop_type (ch_Region row)"
    by (simp add: row)
  show "ch_Crop_Type row \<in> {''Wheat'', ''Maize'', ''Sugarcane''}"
    using crop_type_range [of "keys regions ! i"] by (simp add: row)
qed (rule crop_type_regions)+

text \<open>The first row of the second region, row 14 of the table.\<close>

theorem regions_and_crop_types_witness:
  "t_crop_health_df (fst (load_data (\<lambda>n. 0))) ! 14 \<in> set (t_crop_health_df (fst (load_data (\<lambda>n. 0))))
   \<and> ch_Region (t_crop_health_df (fst (load_data (\<lambda>n. 0))) ! 14) = ''Free State Maize''
   \<and> ch_Crop_Type (t_crop_health_df (fst (load_data (\<lambda>n. 0))) ! 14) = ''Maize''"
proof -
  let ?df = "t_crop_health_df (fst (load_data (\<lambda>n. 0)))"
  have m: "?df ! 14 \<in> set ?df"
    by (rule nth_mem) (simp add: length_crop_health)
  have r: "ch_Region (?df ! 14) = ''Free State Maize''"
    using nth_crop_health [of 1 0 "\<lambda>n. 0"] by (simp add: keys_regions)
  from regions_and_crop_types [of "\<lambda>n. 0"] m
  have "ch_Crop_Type (?df ! 14) = crop_type (ch_Region (?df ! 14))"
    by blast
  with m r show ?thesis
    by (simp add: crop_type_regions)
qed

subsection \<open>Crop type derivation\<close>

text \<open>
  Claim C8. For every region name the crop type is Wheat if the name contains Wheat,
  otherwise Maize if it contains Maize, otherwise Sugarcane; a name containing neither
  substring gets Sugarcane.
\<close>

theorem crop_type_defaults_to_sugarcane:
  "crop_type region =
     (if (\<exists>pre post. region = pre @ ''Wheat'' @ post) then ''Wheat''
      else if (\<exists>pre post. region = pre @ ''Maize'' @ post) then ''Maize''
      else ''Sugarcane'')
   \<and> ((\<nexists>pre post. region = pre @ ''Wheat'' @ post) \<and>
       (\<nexists>pre post. region = pre @ ''Maize'' @ post) \<longrightarrow> crop_type region = ''Sugarcane'')"
  by (simp add: crop_type_def str_in_iff)

text \<open>
  A name with neither substring, and a name with both, where the test for Wheat comes
  first.
\<close>

theorem crop_type_defaults_to_sugarcane_witness:
  "\<not> str_in ''Wheat'' ''Limpopo Citrus'' \<and> \<not> str_in ''Maize'' ''Limpopo Citrus''
   \<and> crop_type ''Limpopo Citrus'' = ''Sugarcane''
   \<and> crop_type ''Maize and Wheat'' = ''Wheat''"
proof -
  have n: "\<not> str_in ''Wheat'' ''Limpopo Citrus''" "\<not> str_in ''Maize'' ''Limpopo Citrus''"
    by simp_all
  have w: "str_in ''Wheat'' ''Maize and Wheat''"
    by simp
  from crop_type_defaults_to_sugarcane [of "''Limpopo Citrus''"]
       crop_type_defaults_to_sugarcane [of "''Maize and Wheat''"] n w
  show ?thesis
    by (simp only: str_in_iff simp_thms if_True if_False)
qed

subsection \<open>The formulas without noise\<close>

lemma filter_nth_upt:
  "k < n \<Longrightarrow> filter (\<lambda>j. j = k) [0..<n] = [k]"
  by (induction n) (auto simp: less_Suc_eq)

lemma filter_by_key:
  assumes "length xs = n" "k < n" "\<And>j. j < n \<Longrightarrow> (P (xs ! j) \<longleftrightarrow> j = k)"
  shows "filter P xs = [xs ! k]"
proof -
  have "filter P xs = filter P (map (\<lambda>j. xs ! j) [0..<n])"
    unfolding assms(1) [symmetric] by (simp only: map_nth)
  also have "\<dots> = map (\<lambda>j. xs ! j) (filter (\<lambda>j. P (xs ! j)) [0..<n])"
    by (simp add: filter_map comp_def)
  also have "filter (\<lambda>j. P (xs ! j)) [0..<n] = filter (\<lambda>j. j = k) [0..<n]"
    by (rule filter_cong) (simp_all add: assms(3))
  finally show ?thesis
    using assms(2) by (simp add: filter_nth_upt)
qed

lemma climate_row_of_year:
  assumes "j < 14"
  shows "filter (\<lambda>row. cl_Year row = 2010 + int j) (t_climate_df (fst (load_data g))) =
         [t_climate_df (fst (load_data g)) ! j]"
  by (rule filter_by_key [where n = 14]) (simp_all add: assms length_climate nth_climate)

lemma projection_row_of_year:
  assumes "j < 26"
  shows "filter (\<lambda>row. pr_Year row = 2024 + int j) (t_projections_df (fst (load_data g))) =
         [t_projections_df (fst (load_data g)) ! j]"
  by (rule filter_by_key [where n = 26]) (simp_all add: assms length_projections nth_projections)

text \<open>
  Claim C4. When every sample is zero, the temperature anomaly of the climate row of 2010
  is 0.0, that of 2020 is 1.0, and the projected temperature anomaly of 2024 is
  0.15 * (2024 - 2010) = 2.1.
\<close>

theorem zero_noise_temperatures:
  "map cl_Temperature_Change
     (filter (\<lambda>row. cl_Year row = 2010) (t_climate_df (fst (load_data (\<lambda>n. 0))))) = [0.0]
   \<and> map cl_Temperature_Change
     (filter (\<lambda>row. cl_Year row = 2020) (t_climate_df (fst (load_data (\<lambda>n. 0))))) = [1.0]
   \<and> map pr_Projected_Temp_Change
     (filter (\<lambda>row. pr_Year row = 2024) (t_projections_df (fst (load_data (\<lambda>n. 0))))) = [2.1]
   \<and> (0.15 :: real) * of_int (2024 - 2010) = 2.1"
  using climate_row_of_year [of 0 "\<lambda>n. 0"] climate_row_of_year [of 10 "\<lambda>n. 0"]
    projection_row_of_year [of 0 "\<lambda>n. 0"]
  by (simp add: nth_climate nth_projections)

text \<open>
  In binary64 the three values are the same floats: \<^verbatim>\<open>0.1 * 0\<close> is zero,
  \<^verbatim>\<open>0.1 * 10\<close> rounds to 1, and \<^verbatim>\<open>0.15 * 14\<close> rounds to the float written
  \<^verbatim>\<open>2.1\<close>. Adding the float zero changes none of them.
\<close>

lemma zero_noise_temperatures_binary64:
  "binade 56 (1 / 10) \<and> fl 56 (1 / 10) * 0 = 0
   \<and> binade 52 (fl 56 (1 / 10) * 10) \<and> fl 52 (fl 56 (1 / 10) * 10) = 1
   \<and> binade 55 (15 / 100) \<and> binade 51 (fl 55 (15 / 100) * 14) \<and> binade 51 (21 / 10)
   \<and> fl 51 (fl 55 (15 / 100) * 14) = fl 51 (21 / 10)"
  by code_simp

subsection \<open>The crop-health formula\<close>

lemma normal_shift: "fst (normal 0 sd (\<lambda>n. g (n + k))) = sd * g k"
  by (simp add: normal_def)

lemma grid_index_inj:
  fixes i j i' j' :: nat
  assumes "j < 14" "j' < 14" "i * 14 + j = i' * 14 + j'"
  shows "i = i' \<and> j = j'"
proof -
  from assms(3) have "(i * 14 + j) div 14 = (i' * 14 + j') div 14"
    by (rule arg_cong)
  with assms(1,2) have "i = i'" by simp
  with assms(3) show ?thesis by simp
qed

text \<open>
  Claim C5. The row of region number \<open>i\<close> and year \<open>2010 + j\<close> stands at position
  \<open>14 * i + j\<close> of the crop-health table. Its index is
  \<open>max 60 (80 - 0.8 * (Y - 2010) + noise)\<close>, where \<open>noise\<close> is what
  \<^verbatim>\<open>np.random.normal(0, 5)\<close> returns at draw number \<open>28 + 14 * i + j\<close> of the
  process. These draws lie after the 28 draws of the climate series and before those of
  the projections, and different pairs of region and year use different draws. The
  region enters the index through the draw only: two regions whose draws for the same
  year deliver the same sample get the same index.
\<close>

theorem crop_health_formula:
  assumes "i < 3" "j < 14" "i' < 3" "j' < 14"
  shows "(let df = t_crop_health_df (fst (load_data g));
              row = df ! (i * 14 + j);
              noise = fst (normal 0 5 (\<lambda>n. g (n + (28 + i * 14 + j))))
          in ch_Region row = keys regions ! i
             \<and> ch_Year row = 2010 + int j
             \<and> ch_Crop_Health_Index row =
                 max 60 (80 - 0.8 * real_of_int (ch_Year row - 2010) + noise))
         \<and> 28 \<le> 28 + i * 14 + j \<and> 28 + i * 14 + j < 70
         \<and> (28 + i * 14 + j = 28 + i' * 14 + j' \<longrightarrow> i = i' \<and> j = j')
         \<and> (g (28 + i * 14 + j) = g (28 + i' * 14 + j) \<longrightarrow>
              ch_Crop_Health_Index (t_crop_health_df (fst (load_data g)) ! (i * 14 + j)) =
              ch_Crop_Health_Index (t_crop_health_df (fst (load_data g)) ! (i' * 14 + j)))"
proof (intro conjI impI)
  show "let df = t_crop_health_df (fst (load_data g));
            row = df ! (i * 14 + j);
            noise = fst (normal 0 5 (\<lambda>n. g (n + (28 + i * 14 + j))))
        in ch_Region row = keys regions ! i
           \<and> ch_Year row = 2010 + int j
           \<and> ch_Crop_Health_Index row =
               max 60 (80 - 0.8 * real_of_int (ch_Year row - 2010) + noise)"
    using assms(1,2) by (simp add: Let_def nth_crop_health normal_shift py_max_eq)
  show "28 + i * 14 + j < 70"
    using assms(1,2) by simp
  show "i = i'" "j = j'" if "28 + i * 14 + j = 28 + i' * 14 + j'"
    using that grid_index_inj [OF assms(2,4), of i i'] by simp_all
  show "ch_Crop_Health_Index (t_crop_health_df (fst (load_data g)) ! (i * 14 + j)) =
        ch_Crop_Health_Index (t_crop_health_df (fst (load_data g)) ! (i' * 14 + j))"
    if "g (28 + i * 14 + j) = g (28 + i' * 14 + j)"
    by (simp only: nth_crop_health [OF assms(1,2)] nth_crop_health [OF assms(3,2)]
        health_row_sel that)
qed simp

text \<open>
  A generator whose draw 44 delivers 3 and every other draw 0: draw 44 belongs to Free
  State Maize in 2012, whose index is 80 - 1.6 + 15; Western Cape Wheat and KZN Sugarcane
  agree in 2012.
\<close>

theorem crop_health_formula_witness:
  "ch_Region (t_crop_health_df (fst (load_data (\<lambda>n. if n = 44 then 3 else 0))) ! (1 * 14 + 2))
     = ''Free State Maize''
   \<and> ch_Year (t_crop_health_df (fst (load_data (\<lambda>n. if n = 44 then 3 else 0))) ! (1 * 14 + 2))
     = 2012
   \<and> ch_Crop_Health_Index
       (t_crop_health_df (fst (load_data (\<lambda>n. if n = 44 then 3 else 0))) ! (1 * 14 + 2))
     = 93.4
   \<and> ch_Crop_Health_Index
       (t_crop_health_df (fst (load_data (\<lambda>n. if n = 44 then 3 else 0))) ! (0 * 14 + 2))
     = ch_Crop_Health_Index
       (t_crop_health_df (fst (load_data (\<lambda>n. if n = 44 then 3 else 0))) ! (2 * 14 + 2))"
proof -
  let ?g = "\<lambda>n::nat. if n = 44 then 3 else (0::real)"
  let ?df = "t_crop_health_df (fst (load_data ?g))"
  have b: "(0::nat) < 3" "(1::nat) < 3" "(2::nat) < 3" "(2::nat) < 14"
    by simp_all
  note maize = crop_health_formula [OF b(2) b(4) b(2) b(4), of ?g, unfolded Let_def]
  note wheat = crop_health_formula [OF b(1) b(4) b(3) b(4), of ?g, unfolded Let_def]
  from maize have row:
    "ch_Region (?df ! (1 * 14 + 2)) = keys regions ! 1
     \<and> ch_Year (?df ! (1 * 14 + 2)) = 2010 + int 2
     \<and> ch_Crop_Health_Index (?df ! (1 * 14 + 2)) =
         max 60 (80 - 0.8 * real_of_int (ch_Year (?df ! (1 * 14 + 2)) - 2010)
                 + fst (normal 0 5 (\<lambda>n. ?g (n + (28 + 1 * 14 + 2)))))"
    by (rule conjunct1)
  from row have r: "ch_Region (?df ! (1 * 14 + 2)) = ''Free State Maize''"
    by (simp add: keys_regions)
  from row have y: "ch_Year (?df ! (1 * 14 + 2)) = 2012"
    by simp
  note row [THEN conjunct2, THEN conjunct2]
  then have h: "ch_Crop_Health_Index (?df ! (1 * 14 + 2)) = 93.4"
    unfolding y by (simp add: normal_def)
  have same: "?g (28 + 0 * 14 + 2) = ?g (28 + 2 * 14 + 2)"
    by simp
  note wheat [THEN conjunct2, THEN conjunct2, THEN conjunct2, THEN conjunct2]
  with same have e:
    "ch_Crop_Health_Index (?df ! (0 * 14 + 2)) = ch_Crop_Health_Index (?df ! (2 * 14 + 2))"
    by (rule rev_mp)
  from r y h e show ?thesis
    by (intro conjI)
qed

subsection \<open>The health indicator\<close>

lemma distinct_keys_regions: "distinct (keys regions)"
  by (simp add: keys_regions)

lemma crop_health_row_of_key:
  assumes "i < 3" "j < 14"
  shows "select_rows (t_crop_health_df (fst (load_data g))) (keys regions ! i) (2010 + int j) =
         [t_crop_health_df (fst (load_data g)) ! (i * 14 + j)]"
  unfolding select_rows_def
proof (rule filter_by_key [where n = 42])
  show "length (t_crop_health_df (fst (load_data g))) = 42"
    by (rule length_crop_health)
  show "i * 14 + j < 42"
    using assms by simp
  fix m :: nat assume m: "m < 42"
  define i' j' where "i' = m div 14" and "j' = m mod 14"
  have m_eq: "m = i' * 14 + j'" and i': "i' < 3" and j': "j' < 14"
    using m by (simp_all add: i'_def j'_def less_mult_imp_div_less)
  have reg: "keys regions ! i' = keys regions ! i \<longleftrightarrow> i' = i"
    using assms(1) i' distinct_keys_regions
    by (simp add: nth_eq_iff_index_eq length_keys_regions)
  have idx: "i' * 14 + j' = i * 14 + j \<longleftrightarrow> i' = i \<and> j' = j"
    using grid_index_inj [OF j' assms(2), of i' i] by blast
  show "(ch_Region (t_crop_health_df (fst (load_data g)) ! m) = keys regions ! i \<and>
         ch_Year (t_crop_health_df (fst (load_data g)) ! m) = 2010 + int j) = (m = i * 14 + j)"
    unfolding m_eq idx using i' j' by (simp add: nth_crop_health reg)
qed

text \<open>
  Claim C9. For a region of the region table and a year from 2010 to 2023, the selection
  of the health indicator holds exactly one row of the crop-health table, the row of
  that region and year, and the displayed mean is the crop-health index of that row.
\<close>

theorem health_value_single_row:
  assumes "region \<in> set (keys regions)" "2010 \<le> year" "year \<le> 2023"
  shows "\<exists>k. k < 42
     \<and> select_rows (t_crop_health_df (fst (load_data g))) region year =
         [t_crop_health_df (fst (load_data g)) ! k]
     \<and> ch_Region (t_crop_health_df (fst (load_data g)) ! k) = region
     \<and> ch_Year (t_crop_health_df (fst (load_data g)) ! k) = year
     \<and> health_value (t_crop_health_df (fst (load_data g))) region year =
         Some (ch_Crop_Health_Index (t_crop_health_df (fst (load_data g)) ! k))"
proof -
  from assms(1) obtain i where i: "i < 3" and r: "region = keys regions ! i"
    by (auto simp: in_set_conv_nth length_keys_regions)
  define j where "j = nat (year - 2010)"
  have j: "j < 14" and y: "year = 2010 + int j"
    using assms(2,3) by (simp_all add: j_def)
  have sel: "select_rows (t_crop_health_df (fst (load_data g))) region year =
             [t_crop_health_df (fst (load_data g)) ! (i * 14 + j)]"
    unfolding r y by (rule crop_health_row_of_key [OF i j])
  show ?thesis
  proof (intro exI [of _ "i * 14 + j"] conjI)
    show "i * 14 + j < 42" using i j by simp
    show "select_rows (t_crop_health_df (fst (load_data g))) region year =
          [t_crop_health_df (fst (load_data g)) ! (i * 14 + j)]"
      by (rule sel)
    show "ch_Region (t_crop_health_df (fst (load_data g)) ! (i * 14 + j)) = region"
      by (simp add: nth_crop_health i j r)
    show "ch_Year (t_crop_health_df (fst (load_data g)) ! (i * 14 + j)) = year"
      by (simp add: nth_crop_health i j y)
    show "health_value (t_crop_health_df (fst (load_data g))) region year =
          Some (ch_Crop_Health_Index (t_crop_health_df (fst (load_data g)) ! (i * 14 + j)))"
      by (simp add: health_value_def sel mean_def)
  qed
qed

text \<open>KZN Sugarcane in 2020 without noise: the one row has index 80 - 8.\<close>

theorem health_value_single_row_witness:
  "''KZN Sugarcane'' \<in> set (keys regions) \<and> (2010::int) \<le> 2020 \<and> (2020::int) \<le> 2023
   \<and> length (select_rows (t_crop_health_df (fst (load_data (\<lambda>n. 0)))) ''KZN Sugarcane'' 2020) = 1
   \<and> health_value (t_crop_health_df (fst (load_data (\<lambda>n. 0)))) ''KZN Sugarcane'' 2020 = Some 72"
proof -
  let ?df = "t_crop_health_df (fst (load_data (\<lambda>n. 0)))"
  have a: "''KZN Sugarcane'' \<in> set (keys regions)"
    by (simp add: keys_regions)
  have b: "(2010::int) \<le> 2020" "(2020::int) \<le> 2023"
    by simp_all
  from health_value_single_row [OF a b, of "\<lambda>n. 0"]
  obtain k where k: "k < 42"
    and sel: "select_rows ?df ''KZN Sugarcane'' 2020 = [?df ! k]"
    and yr: "ch_Year (?df ! k) = 2020"
    and hv: "health_value ?df ''KZN Sugarcane'' 2020 = Some (ch_Crop_Health_Index (?df ! k))"
    by blast
  from k have "?df ! k \<in> set ?df"
    by (simp add: length_crop_health)
  then obtain i j where row: "?df ! k = health_row (keys regions ! i) (2010 + int j) (5 * 0)"
    by (rule crop_health_rowE)
  from yr have "2010 + int j = 2020"
    by (simp add: row)
  then have "ch_Crop_Health_Index (?df ! k) = 72"
    by (simp add: row py_max_def)
  with a b sel hv show ?thesis
    by simp
qed

section \<open>Properties of the cache\<close>

lemma cached_load_data_hit:
  "cache p = Some t \<Longrightarrow> cached_load_data p = (t, p)"
  by (simp add: cached_load_data_def)

lemma cached_load_data_miss:
  "cache p = None \<Longrightarrow>
   cached_load_data p =
     (fst (load_data (np_random p)),
      \<lparr>cache = Some (fst (load_data (np_random p))), np_random = snd (load_data (np_random p))\<rparr>)"
  by (simp add: cached_load_data_def split_def Let_def)

lemma invocations_hit:
  "cache p = Some t \<Longrightarrow>
   invocations os p =
     (replicate (length os) t, p\<lparr>np_random := foldl (\<lambda>g other. other g) (np_random p) os\<rparr>)"
proof (induction os arbitrary: p)
  case Nil
  show ?case by simp
next
  case (Cons other os)
  have "cache (p\<lparr>np_random := other (np_random p)\<rparr>) = Some t"
    using Cons.prems by simp
  from Cons.IH [OF this] Cons.prems show ?case
    by (simp add: cached_load_data_hit)
qed

text \<open>
  Claim C7. In a process that starts with an empty cache, every call of the decorated
  \<^verbatim>\<open>load_data\<close> returns the tables that the first call computed from the generator
  state of that moment, whatever the script draws between the calls. The body ran once:
  the generator has been advanced by the draws of one run of \<^verbatim>\<open>load_data\<close> and by
  the other code only, and the cache still holds the same tables after the last call.
\<close>

theorem load_data_computed_once:
  assumes "cache p = None"
  shows "fst (invocations (other # os) p) =
           replicate (Suc (length os)) (fst (load_data (np_random p)))
         \<and> cache (snd (invocations (other # os) p)) = Some (fst (load_data (np_random p)))
         \<and> np_random (snd (invocations (other # os) p)) =
             foldl (\<lambda>g other. other g) (snd (load_data (np_random p))) (other # os)"
proof -
  let ?t = "fst (load_data (np_random p))"
  let ?p1 = "\<lparr>cache = Some ?t, np_random = other (snd (load_data (np_random p)))\<rparr>"
  have "cache ?p1 = Some ?t"
    by simp
  from invocations_hit [OF this, of os] assms show ?thesis
    by (simp add: cached_load_data_miss)
qed

lemma temp_2010: "cl_Temperature_Change (t_climate_df (fst (load_data g)) ! 0) = 0.2 * g 0"
  by (simp add: nth_climate)

text \<open>
  A generator whose \<open>n\<close>-th draw delivers \<open>n\<close>, and three calls with no other draws in
  between: the three results are the first one, only the 148 draws of one run have been
  consumed, and a fresh run after the first call would have given other tables.
\<close>

theorem load_data_computed_once_witness:
  "cache \<lparr>cache = None, np_random = real\<rparr> = None
   \<and> fst (invocations [id, id, id] \<lparr>cache = None, np_random = real\<rparr>) =
        [fst (load_data real), fst (load_data real), fst (load_data real)]
   \<and> np_random (snd (invocations [id, id, id] \<lparr>cache = None, np_random = real\<rparr>)) 0 = 148
   \<and> fst (load_data (np_random (snd (cached_load_data \<lparr>cache = None, np_random = real\<rparr>))))
        \<noteq> fst (load_data real)"
proof -
  let ?p = "\<lparr>cache = None, np_random = real\<rparr>"
  have c: "cache ?p = None"
    by simp
  have fresh: "fst (load_data (np_random (snd (cached_load_data ?p)))) \<noteq> fst (load_data real)"
  proof
    assume "fst (load_data (np_random (snd (cached_load_data ?p)))) = fst (load_data real)"
    then have "cl_Temperature_Change
                 (t_climate_df (fst (load_data (np_random (snd (cached_load_data ?p))))) ! 0) =
               cl_Temperature_Change (t_climate_df (fst (load_data real)) ! 0)"
      by simp
    then show False
      by (simp add: temp_2010 cached_load_data_miss load_data_rng)
  qed
  from load_data_computed_once [OF c, of id "[id, id]"] c fresh show ?thesis
    by (simp add: load_data_rng numeral_3_eq_3)
qed

section \<open>Properties of the Crop Health tab\<close>

subsection \<open>Season selection\<close>

lemma run_season_Some:
  "run_season ss (Some b) ''crop_season'' = Some (button_value b)"
  by (cases b) (simp_all add: run_season_def select_season_def)

lemma run_season_None:
  "run_season ss None ''crop_season'' =
     (case ss ''crop_season'' of None \<Rightarrow> Some ''Planting'' | Some s \<Rightarrow> Some s)"
  by (simp add: run_season_def select_season_def split: option.split)

lemma session_snoc: "session (clicks @ [c]) = run_season (session clicks) c"
  by (simp add: session_def)

lemma select_season_range:
  assumes "ss ''crop_season'' \<in> {None, Some ''Planting'', Some ''Growth'', Some ''Harvest''}"
  shows "select_season planting_btn growth_btn harvest_btn ss ''crop_season''
           \<in> {Some ''Planting'', Some ''Growth'', Some ''Harvest''}"
  using assms by (auto simp: select_season_def)

lemma select_season_other_keys:
  "k \<noteq> ''crop_season'' \<Longrightarrow> select_season planting_btn growth_btn harvest_btn ss k = ss k"
  by (simp add: select_season_def)

lemma session_range:
  "session clicks ''crop_season'' \<in> {None, Some ''Planting'', Some ''Growth'', Some ''Harvest''}"
proof (induction clicks rule: rev_induct)
  case Nil
  show ?case by (simp add: session_def)
next
  case (snoc c clicks)
  from select_season_range [of "session clicks", OF snoc.IH] show ?case
    unfolding session_snoc run_season_def by blast
qed

lemma session_snoc_range:
  "session (clicks @ [c]) ''crop_season'' \<in> {Some ''Planting'', Some ''Growth'', Some ''Harvest''}"
  using select_season_range [of "session clicks" "c = Some Planting_btn" "c = Some Growth_btn"
      "c = Some Harvest_btn", OF session_range]
  by (simp only: session_snoc run_season_def)

lemma session_no_click:
  "session (replicate (Suc n) None) ''crop_season'' = Some ''Planting''"
proof (induction n)
  case 0
  show ?case by (simp add: session_def run_season_None)
next
  case (Suc n)
  have "replicate (Suc (Suc n)) (None :: season_button option) = replicate (Suc n) None @ [None]"
    by (simp add: replicate_append_same)
  with Suc show ?case
    by (simp only: session_snoc run_season_None option.case)
qed

text \<open>
  Claim C10. After every run of the script the selected season is Planting, Growth or
  Harvest. A session in which no season button was ever pressed has Planting. A run
  triggered by a season button has exactly that button's season afterwards, and a run
  triggered by anything else keeps the season of the run before.
\<close>

theorem season_selection:
  "session (clicks @ [c]) ''crop_season'' \<in> {Some ''Planting'', Some ''Growth'', Some ''Harvest''}
   \<and> session (replicate (Suc n) None) ''crop_season'' = Some ''Planting''
   \<and> session (clicks @ [Some b]) ''crop_season'' = Some (button_value b)
   \<and> (clicks \<noteq> [] \<longrightarrow>
        session (clicks @ [None]) ''crop_season'' = session clicks ''crop_season'')"
proof (intro conjI impI)
  show "session (clicks @ [c]) ''crop_season'' \<in> {Some ''Planting'', Some ''Growth'', Some ''Harvest''}"
    by (rule session_snoc_range)
  show "session (replicate (Suc n) None) ''crop_season'' = Some ''Planting''"
    by (rule session_no_click)
  show "session (clicks @ [Some b]) ''crop_season'' = Some (button_value b)"
    by (simp only: session_snoc run_season_Some)
  show "session (clicks @ [None]) ''crop_season'' = session clicks ''crop_season''"
    if "clicks \<noteq> []"
  proof -
    from that obtain cs c' where "clicks = cs @ [c']"
      by (cases clicks rule: rev_cases) auto
    with session_snoc_range [of cs c']
    have "session clicks ''crop_season'' \<noteq> None"
      by auto
    then show ?thesis
      by (auto simp: session_snoc run_season_None)
  qed
qed

text \<open>
  Growth stays selected through a later run without a click, and the last click of a
  longer session decides.
\<close>

theorem season_selection_witness:
  "[Some Growth_btn] \<noteq> []
   \<and> session ([Some Growth_btn] @ [None]) ''crop_season'' = Some ''Growth''
   \<and> session [None, Some Harvest_btn, None, Some Planting_btn] ''crop_season'' = Some ''Planting''"
proof -
  have ne: "[Some Growth_btn] \<noteq> []"
    by simp
  have g: "session [Some Growth_btn] ''crop_season'' = Some ''Growth''"
    by (simp add: session_def run_season_Some)
  from season_selection [of "[Some Growth_btn]" None 0 Growth_btn] ne g
  have "session ([Some Growth_btn] @ [None]) ''crop_season'' = Some ''Growth''"
    by (simp only: simp_thms)
  moreover have
    "session [None, Some Harvest_btn, None, Some Planting_btn] ''crop_season'' = Some ''Planting''"
    by (simp add: session_def run_season_Some)
  ultimately show ?thesis
    using ne by (intro conjI)
qed

subsection \<open>Image fetch\<close>

lemma image_urls_regions:
  "region \<in> set (keys regions) \<Longrightarrow> \<exists>url. map_of image_urls region = Some url"
  by (auto simp: keys_regions image_urls_def)

lemma handler_completes:
  assumes "st_warning env (''Unable to load satellite image. Error: '' @ exn_str e) = None"
    and "st_image_url env placeholder_url = None"
  shows "except_handler env e =
           ([Warning (''Unable to load satellite image. Error: '' @ exn_str e),
             Placeholder_image placeholder_url], None)"
  using assms by (simp add: except_handler_def)


lemma show_satellite_image_caught:
  assumes "try_body env region crop_season year = ([], Some e)"
    and "\<And>msg. st_warning env msg = None"
    and "st_image_url env placeholder_url = None"
  shows "show_satellite_image env region crop_season year =
           ([Warning (''Unable to load satellite image. Error: '' @ exn_str e),
             Placeholder_image placeholder_url], None)"
  using assms by (simp add: show_satellite_image_def handler_completes)

text \<open>
  The handler is not protected: an exception of \<^verbatim>\<open>st.warning\<close> or of the placeholder's
  \<^verbatim>\<open>st.image\<close> leaves the block.
\<close>

lemma handler_failure_propagates:
  assumes "try_body env region crop_season year = ([], Some e)"
    and "st_warning env (''Unable to load satellite image. Error: '' @ exn_str e) = Some e'"
  shows "show_satellite_image env region crop_season year = ([], Some e')"
  using assms by (simp add: show_satellite_image_def except_handler_def)

text \<open>
  A region without an entry in \<^verbatim>\<open>image_urls\<close> raises \<^verbatim>\<open>KeyError\<close> inside the
  \<^verbatim>\<open>try\<close> and gets the fallback as well; the selector offers no such region.
\<close>

lemma unknown_region_falls_back:
  assumes "map_of image_urls region = None"
    and "\<And>msg. st_warning env msg = None"
    and "st_image_url env placeholder_url = None"
  shows "show_satellite_image env region crop_season year =
           ([Warning (''Unable to load satellite image. Error: '' @ py_repr env region),
             Placeholder_image placeholder_url], None)"
  using show_satellite_image_caught [of env region crop_season year
      "Exn ''KeyError'' (py_repr env region)"] assms
  by (simp add: try_body_def)




lemma url_kzn:
  "map_of image_urls ''KZN Sugarcane'' =
     Some ''https://upload.wikimedia.org/wikipedia/commons/3/3a/RSA_Sugar_Fields.jpg''"
  by (simp add: image_urls_def)



text \<open>
  Without the assumption on the handler the block can raise: here the connection is
  refused and \<^verbatim>\<open>st.warning\<close> raises in turn.
\<close>

lemma handler_failure_example:
  "show_satellite_image
     \<lparr>py_repr = \<lambda>s. s, requests_get = \<lambda>url. Inl (Exn ''ConnectionError'' ''connection refused''),
      Image_open = \<lambda>raw. (Inr 7 :: exn + nat),
      st_image = \<lambda>img cap w. None, st_warning = \<lambda>msg. Some (Exn ''RuntimeError'' ''no page''),
      st_image_url = \<lambda>url. None\<rparr>
     ''KZN Sugarcane'' ''Growth'' 2020 =
     ([], Some (Exn ''RuntimeError'' ''no page''))"
  by (simp add: show_satellite_image_def try_body_def except_handler_def url_kzn)

end
